theory Spec2Isabelle
  imports Main "HOL-Library.Word"
begin

unbundle bit_operations_syntax

section \<open>Go values, errors and panics\<close>

text \<open>
  The gateway bridge of \<open>lds\<close> is Go code: \<open>forwarder.go\<close> (package \<open>main\<close>) and the UDP
  client of package \<open>lds\<close> (\<open>NSClient\<close>, \<open>sendWithPayload\<close>, \<open>UDPParsePacket\<close>).
  A byte is an 8-bit word, a Go \<open>string\<close> is a list of bytes written as characters,
  \<open>uint32\<close>/\<open>int32\<close> are 32-bit words and \<open>uint64\<close>/\<open>int64\<close> 64-bit words (the signed
  reading is \<open>sint\<close>). \<open>int\<close> is taken to be 64 bits wide.

  A Go function either returns or panics; \<open>error\<close> results are values. Logging calls
  (\<open>log.Warn\<close>, \<open>log.Infoln\<close>, \<open>log.Debugf\<close>, \<open>fmt.Printf\<close>) have no effect on any
  value or datagram and are left out.
\<close>

type_synonym byte = "8 word"

datatype strconv_err = ErrSyntax | ErrRange

datatype go_error =
    ErrorString string \<comment> \<open>\<open>errors.New(msg)\<close>\<close>
  | NumError string string strconv_err \<comment> \<open>\<open>*strconv.NumError{Func, Num, Err}\<close>\<close>
  | EOF \<comment> \<open>\<open>io.EOF\<close>\<close>
  | ErrUnexpectedEOF \<comment> \<open>\<open>io.ErrUnexpectedEOF\<close>\<close>
  | InvalidByteError byte \<comment> \<open>\<open>hex.InvalidByteError\<close>\<close>
  | ErrLength \<comment> \<open>\<open>hex.ErrLength\<close>\<close>
  | UnsupportedValueError \<comment> \<open>\<open>*json.UnsupportedValueError\<close>\<close>
  | OpError string \<comment> \<open>\<open>*net.OpError\<close>, as the operating system reports it\<close>

datatype 'a outcome = Panic string | Returns 'a

definition nil_deref :: string where
  "nil_deref = ''runtime error: invalid memory address or nil pointer dereference''"

subsection \<open>Decimal numerals: \<open>%d\<close> and \<open>strconv.Atoi\<close>\<close>

definition digit :: "nat \<Rightarrow> char" where
  "digit d = char_of (48 + d)"

fun fmt_uint :: "nat \<Rightarrow> string" where
  "fmt_uint n = (if n < 10 then [digit n] else fmt_uint (n div 10) @ [digit (n mod 10)])"

declare fmt_uint.simps [simp del]

definition fmt_int :: "int \<Rightarrow> string" where
  "fmt_int i = (if i < 0 then CHR ''-'' # fmt_uint (nat (- i)) else fmt_uint (nat i))"

text \<open>
  \<open>strconv\<close> reads a digit as \<open>ch - '0'\<close> on bytes and rejects a difference above 9.
\<close>

definition digit_val :: "char \<Rightarrow> nat option" where
  "digit_val ch = (let d = (of_char ch :: byte) - 48 in if d > 9 then None else Some (unat d))"

text \<open>
  The loop of \<open>strconv.ParseUint(s, 10, 64)\<close>: a byte that is no digit is a syntax error,
  a value that leaves 64 bits is a range error, whichever comes first.
\<close>

fun ParseUint_loop :: "nat \<Rightarrow> string \<Rightarrow> strconv_err + nat" where
  "ParseUint_loop n [] = Inr n"
| "ParseUint_loop n (c # s) =
     (case digit_val c of
        None \<Rightarrow> Inl ErrSyntax
      | Some d \<Rightarrow> if n * 10 + d \<ge> 2 ^ 64 then Inl ErrRange else ParseUint_loop (n * 10 + d) s)"

text \<open>
  \<open>strconv.Atoi\<close>: an optional sign, then at least one digit, within \<open>int64\<close>. Its fast
  path for short strings and its slow path through \<open>ParseInt(s, 10, 0)\<close> give the same
  results, so one definition covers both. On an error Go also returns a number, which
  the only caller ignores.
\<close>

definition Atoi :: "string \<Rightarrow> go_error + int" where
  "Atoi s0 =
     (if s0 = [] then Inl (NumError ''Atoi'' s0 ErrSyntax)
      else
        let neg = (hd s0 = CHR ''-'');
            s = (if hd s0 = CHR ''-'' \<or> hd s0 = CHR ''+'' then tl s0 else s0)
        in if s = [] then Inl (NumError ''Atoi'' s0 ErrSyntax)
           else
             (case ParseUint_loop 0 s of
                Inl e \<Rightarrow> Inl (NumError ''Atoi'' s0 e)
              | Inr un \<Rightarrow>
                  if \<not> neg \<and> un \<ge> 2 ^ 63 then Inl (NumError ''Atoi'' s0 ErrRange)
                  else if neg \<and> un > 2 ^ 63 then Inl (NumError ''Atoi'' s0 ErrRange)
                  else Inr (if neg then - int un else int un)))"

section \<open>The inbound decoder: \<open>UDPParsePacket\<close>\<close>

subsection \<open>\<open>encoding/binary.Read\<close> into a struct\<close>

text \<open>
  \<open>UDPParsePacket\<close> reads the header with \<open>binary.Read(buf, binary.LittleEndian, &data)\<close>
  where \<open>data\<close> is a local struct with the fields \<open>version int8\<close>, \<open>token int16\<close> and
  \<open>id int8\<close>. \<open>binary.Read\<close> on a pointer to a struct
  \<^item> computes the encoded size of the struct from the field types,
  \<^item> fills a buffer of that size with \<open>io.ReadFull\<close>, which fails with \<open>io.EOF\<close> when
    nothing can be read and with \<open>io.ErrUnexpectedEOF\<close> when the input ends early,
  \<^item> then walks the fields in order: a field is decoded when it can be set or its
    name is not \<open>_\<close>, and skipped otherwise. Decoding stores the number with
    \<open>reflect.Value.SetInt\<close>, which panics on a field that was reached through an
    unexported name.
  The package documentation says so: when reading into a struct, all non-blank fields
  must be exported or \<open>Read\<close> may panic. A struct is described here by the names and kinds
  of its fields; the kinds are the two the header uses. A name is exported when it
  starts with an upper-case letter (the ASCII ones suffice here).
\<close>

datatype kind = Int8 | Int16

type_synonym struct_field = "string \<times> kind"

definition exported :: "string \<Rightarrow> bool" where
  "exported name = (name \<noteq> [] \<and> hd name \<in> set ''ABCDEFGHIJKLMNOPQRSTUVWXYZ'')"

fun sizeof :: "kind \<Rightarrow> nat" where
  "sizeof Int8 = 1"
| "sizeof Int16 = 2"

definition dataSize :: "struct_field list \<Rightarrow> nat" where
  "dataSize fs = sum_list (map (\<lambda>f. sizeof (snd f)) fs)"

text \<open>Little-endian signed numbers, as \<open>decoder.int8\<close> and \<open>decoder.int16\<close> read them.\<close>

fun le_int :: "kind \<Rightarrow> byte list \<Rightarrow> int" where
  "le_int Int8 bs = sint (bs ! 0)"
| "le_int Int16 bs = sint ((ucast (bs ! 0) OR push_bit 8 (ucast (bs ! 1))) :: 16 word)"

definition SetInt_unexported :: string where
  "SetInt_unexported = ''reflect: reflect.Value.SetInt using value obtained using unexported field''"

text \<open>
  \<open>decoder.value\<close> on a struct. The buffer always holds the bytes of the remaining fields
  (it was filled to \<open>dataSize\<close>), so the reads of \<open>le_int\<close> are in range.
\<close>

fun decode_fields :: "struct_field list \<Rightarrow> byte list \<Rightarrow> (string \<times> int) list outcome" where
  "decode_fields [] buf = Returns []"
| "decode_fields ((name, k) # fs) buf =
     (if exported name \<or> name \<noteq> ''_'' then
        (if exported name then
           (case decode_fields fs (drop (sizeof k) buf) of
              Panic m \<Rightarrow> Panic m
            | Returns vs \<Rightarrow> Returns ((name, le_int k (take (sizeof k) buf)) # vs))
         else Panic SetInt_unexported)
      else decode_fields fs (drop (sizeof k) buf))"

definition binary_Read :: "byte list \<Rightarrow> struct_field list \<Rightarrow> (go_error + (string \<times> int) list) outcome" where
  "binary_Read r fs =
     (let size = dataSize fs in
      if length r < size then Returns (Inl (if r = [] then EOF else ErrUnexpectedEOF))
      else
        (case decode_fields fs (take size r) of
           Panic m \<Rightarrow> Panic m
         | Returns vs \<Rightarrow> Returns (Inr vs)))"

text \<open>Reading a field of the decoded struct; a field that was never set holds zero.\<close>

definition field_of :: "(string \<times> int) list \<Rightarrow> string \<Rightarrow> int" where
  "field_of data name = (case map_of data name of None \<Rightarrow> 0 | Some v \<Rightarrow> v)"

subsection \<open>\<open>UDPParsePacket\<close>\<close>

text \<open>
  The struct that \<open>UDPParsePacket\<close> declares: all three field names start with a
  lower-case letter.
\<close>

definition header_struct :: "struct_field list" where
  "header_struct = [(''version'', Int8), (''token'', Int16), (''id'', Int8)]"

text \<open>
  \<open>func UDPParsePacket(packet []byte, result *map[string]interface{}) (bool, error)\<close>.
  The map behind \<open>result\<close> is passed in and returned: it is replaced by a fresh empty
  map only on the PULL_RESP path.
\<close>

definition UDPParsePacket ::
  "byte list \<Rightarrow> (string \<rightharpoonup> 'v) \<Rightarrow> (bool \<times> go_error option \<times> (string \<rightharpoonup> 'v)) outcome" where
  "UDPParsePacket packet result =
     (case binary_Read packet header_struct of
        Panic m \<Rightarrow> Panic m
      | Returns (Inl err) \<Rightarrow> Returns (False, Some err, result)
      | Returns (Inr data) \<Rightarrow>
          if field_of data ''id'' \<noteq> 0x03 then Returns (False, None, result)
          else Returns (False, None, Map.empty))"

section \<open>The outbound encoder\<close>

subsection \<open>Radio metadata\<close>

text \<open>
  The metadata of an uplink arrives as two protobuf messages of \<open>chirpstack-api\<close>,
  \<open>*gw.UplinkRXInfo\<close> and \<open>*gw.UplinkTXInfo\<close>; only the fields that \<open>sendWithPayload\<close>
  reads are kept. Both pointers may be nil, and so may the GPS time and the LoRa
  modulation inside them: they are options. The generated getters accept a nil
  receiver and answer the zero value.

  Floating-point numbers are not computed with. A \<open>float64\<close> is its IEEE 754 bit pattern;
  the one \<open>float32\<close> of the program, \<open>float32(frequency) / 1000000.0\<close>, is kept as the
  expression that produces it.
\<close>

type_synonym float64 = "64 word"

datatype float32 = Float32_quotient "32 word" nat

definition float64_finite :: "float64 \<Rightarrow> bool" where
  "float64_finite x = (drop_bit 52 x AND 0x7FF \<noteq> 0x7FF)"

record Duration =
  Seconds :: "64 word"
  Nanos :: "32 word"

record LoRaModulationInfo =
  Bandwidth :: "32 word"
  SpreadingFactor :: "32 word"
  CodeRate :: string

datatype ModulationInfo = NoModulationInfo | Lora "LoRaModulationInfo option" | Fsk

record UplinkRXInfo =
  TimeSinceGpsEpoch :: "Duration option"
  Channel :: "32 word"
  RfChain :: "32 word"
  Rssi :: "32 word"
  LoraSnr :: float64

record UplinkTXInfo =
  Frequency :: "32 word"
  Modulation_Info :: ModulationInfo

definition GetTimeSinceGpsEpoch :: "UplinkRXInfo option \<Rightarrow> Duration option" where
  "GetTimeSinceGpsEpoch m = (case m of None \<Rightarrow> None | Some x \<Rightarrow> TimeSinceGpsEpoch x)"

definition GetChannel :: "UplinkRXInfo option \<Rightarrow> 32 word" where
  "GetChannel m = (case m of None \<Rightarrow> 0 | Some x \<Rightarrow> Channel x)"

definition GetRfChain :: "UplinkRXInfo option \<Rightarrow> 32 word" where
  "GetRfChain m = (case m of None \<Rightarrow> 0 | Some x \<Rightarrow> RfChain x)"

definition GetRssi :: "UplinkRXInfo option \<Rightarrow> 32 word" where
  "GetRssi m = (case m of None \<Rightarrow> 0 | Some x \<Rightarrow> Rssi x)"

definition GetLoraSnr :: "UplinkRXInfo option \<Rightarrow> float64" where
  "GetLoraSnr m = (case m of None \<Rightarrow> 0 | Some x \<Rightarrow> LoraSnr x)"

definition GetFrequency :: "UplinkTXInfo option \<Rightarrow> 32 word" where
  "GetFrequency m = (case m of None \<Rightarrow> 0 | Some x \<Rightarrow> Frequency x)"

definition GetLoraModulationInfo :: "UplinkTXInfo option \<Rightarrow> LoRaModulationInfo option" where
  "GetLoraModulationInfo m =
     (case m of
        None \<Rightarrow> None
      | Some x \<Rightarrow> (case Modulation_Info x of Lora l \<Rightarrow> l | _ \<Rightarrow> None))"

definition GetBandwidth :: "LoRaModulationInfo option \<Rightarrow> 32 word" where
  "GetBandwidth m = (case m of None \<Rightarrow> 0 | Some x \<Rightarrow> Bandwidth x)"

definition GetCodeRate :: "LoRaModulationInfo option \<Rightarrow> string" where
  "GetCodeRate m = (case m of None \<Rightarrow> [] | Some x \<Rightarrow> CodeRate x)"

subsection \<open>\<open>toMilliseconds\<close>\<close>

text \<open>
  \<open>return uint64(d.Seconds)*1000 + uint64(d.Nanos)/1000\<close>. The fields are read through
  the pointer, so a nil \<open>d\<close> panics. \<open>uint64\<close> of the \<open>int32\<close> sign-extends; the arithmetic
  is unsigned and wraps at 64 bits.
\<close>

definition toMilliseconds :: "Duration option \<Rightarrow> 64 word outcome" where
  "toMilliseconds d =
     (case d of
        None \<Rightarrow> Panic nil_deref
      | Some x \<Rightarrow> Returns (Seconds x * 1000 + (scast (Nanos x) :: 64 word) div 1000))"

subsection \<open>\<open>base64.StdEncoding\<close>\<close>

definition encodeStd :: string where
  "encodeStd = ''ABCDEFGHIJKLMNOPQRSTUVWXYZabcdefghijklmnopqrstuvwxyz0123456789+/''"

definition enc64 :: "64 word \<Rightarrow> char" where
  "enc64 v = encodeStd ! unat (v AND 0x3F)"

text \<open>
  \<open>Encoding.Encode\<close>: three source bytes give four characters; a last block of one or two
  bytes is padded with \<open>=\<close>.
\<close>

fun EncodeToString :: "byte list \<Rightarrow> string" where
  "EncodeToString (s0 # s1 # s2 # src) =
     (let val = push_bit 16 (ucast s0) OR push_bit 8 (ucast s1) OR ucast s2
      in enc64 (drop_bit 18 val) # enc64 (drop_bit 12 val) # enc64 (drop_bit 6 val) # enc64 val
           # EncodeToString src)"
| "EncodeToString [s0, s1] =
     (let val = push_bit 16 (ucast s0) OR push_bit 8 (ucast s1)
      in [enc64 (drop_bit 18 val), enc64 (drop_bit 12 val), enc64 (drop_bit 6 val), CHR ''=''])"
| "EncodeToString [s0] =
     (let val = push_bit 16 (ucast s0)
      in [enc64 (drop_bit 18 val), enc64 (drop_bit 12 val), CHR ''='', CHR ''=''])"
| "EncodeToString [] = []"

text \<open>
  The receiving side, which the claims speak of and the repository does not contain: a
  decoder of padded base64 after RFC 4648, section 4. It reads four characters at a
  time, looks each up in the alphabet, and accepts padding in the last block only.
\<close>

definition decode_char :: "char \<Rightarrow> 64 word option" where
  "decode_char c =
     (let n = (of_char c :: nat) in
      if 65 \<le> n \<and> n \<le> 90 then Some (of_nat (n - 65))
      else if 97 \<le> n \<and> n \<le> 122 then Some (of_nat (n - 71))
      else if 48 \<le> n \<and> n \<le> 57 then Some (of_nat (n + 4))
      else if n = 43 then Some 62
      else if n = 47 then Some 63
      else None)"

fun DecodeString :: "string \<Rightarrow> byte list option" where
  "DecodeString (c0 # c1 # c2 # c3 # rest) =
     (case (decode_char c0, decode_char c1) of
        (Some a, Some b) \<Rightarrow>
          if rest = [] \<and> c2 = CHR ''='' \<and> c3 = CHR ''='' then
            Some [ucast (push_bit 2 a OR drop_bit 4 b)]
          else
            (case decode_char c2 of
               None \<Rightarrow> None
             | Some c \<Rightarrow>
                 if rest = [] \<and> c3 = CHR ''='' then
                   Some [ucast (push_bit 2 a OR drop_bit 4 b), ucast (push_bit 4 b OR drop_bit 2 c)]
                 else
                   (case decode_char c3 of
                      None \<Rightarrow> None
                    | Some d \<Rightarrow>
                        (case DecodeString rest of
                           None \<Rightarrow> None
                         | Some bs \<Rightarrow>
                             Some (ucast (push_bit 2 a OR drop_bit 4 b)
                                   # ucast (push_bit 4 b OR drop_bit 2 c)
                                   # ucast (push_bit 6 c OR d) # bs))))
      | _ \<Rightarrow> None)"
| "DecodeString [] = Some []"
| "DecodeString _ = None"

subsection \<open>The rxpk record\<close>

record pfpacket =
  Time :: string
  TMMS :: "64 word"
  TMST :: "32 word"
  Chan :: "32 word"
  RFCH :: "32 word"
  Freq :: float32
  Stat :: "32 word"
  Modu :: string
  DatR :: string
  CorR :: string
  RSSI :: "32 word"
  LSNR :: float64
  Size :: "32 word"
  Data :: string

record pfproto =
  RXPK :: "pfpacket list"

text \<open>
  The first part of \<open>sendWithPayload\<close>, up to \<open>packet.Data = phyBase\<close>: it fills the rxpk
  record from the payload, the wall-clock time \<open>utc\<close> and the metadata. Two reads go
  through a pointer without a check and panic on nil: \<open>toMilliseconds(gps)\<close> and
  \<open>mod.SpreadingFactor\<close>.
\<close>

definition build_rxpk ::
  "string \<Rightarrow> byte list \<Rightarrow> UplinkRXInfo option \<Rightarrow> UplinkTXInfo option \<Rightarrow> pfpacket outcome" where
  "build_rxpk utc payload rxInfo txInfo =
     (let phyBase = EncodeToString payload;
          gps = GetTimeSinceGpsEpoch rxInfo;
          modi = GetLoraModulationInfo txInfo
      in case toMilliseconds gps of
           Panic m \<Rightarrow> Panic m
         | Returns ms \<Rightarrow>
             (case modi of
                None \<Rightarrow> Panic nil_deref
              | Some l \<Rightarrow>
                  Returns \<lparr>
                    Time = utc,
                    TMMS = ms div 1000,
                    TMST = ucast (ms div 1000 div 1000),
                    Chan = GetChannel rxInfo,
                    RFCH = GetRfChain rxInfo,
                    Freq = Float32_quotient (GetFrequency txInfo) 1000000,
                    Stat = 1,
                    Modu = ''LORA'',
                    DatR = ''SF'' @ fmt_uint (unat (SpreadingFactor l)) @ ''BW''
                             @ fmt_uint (unat (GetBandwidth modi)),
                    CorR = GetCodeRate modi,
                    RSSI = GetRssi rxInfo,
                    LSNR = GetLoraSnr rxInfo,
                    Size = of_nat (length payload),
                    Data = phyBase \<rparr>))"

subsection \<open>\<open>hex.DecodeString\<close>\<close>

definition fromHexChar :: "char \<Rightarrow> byte option" where
  "fromHexChar c =
     (let n = (of_char c :: nat) in
      if 48 \<le> n \<and> n \<le> 57 then Some (of_nat (n - 48))
      else if 97 \<le> n \<and> n \<le> 102 then Some (of_nat (n - 97 + 10))
      else if 65 \<le> n \<and> n \<le> 70 then Some (of_nat (n - 65 + 10))
      else None)"

text \<open>
  \<open>hex.DecodeString\<close> returns the bytes decoded before the first fault together with
  the error: a character that is no hex digit, or an odd length (reported after the
  characters before it were checked).
\<close>

fun hex_DecodeString :: "string \<Rightarrow> byte list \<times> go_error option" where
  "hex_DecodeString (p # q # src) =
     (case fromHexChar p of
        None \<Rightarrow> ([], Some (InvalidByteError (of_char p)))
      | Some a \<Rightarrow>
          (case fromHexChar q of
             None \<Rightarrow> ([], Some (InvalidByteError (of_char q)))
           | Some b \<Rightarrow>
               (case hex_DecodeString src of
                  (bs, err) \<Rightarrow> ((push_bit 4 a OR b) # bs, err))))"
| "hex_DecodeString [p] =
     (case fromHexChar p of
        None \<Rightarrow> ([], Some (InvalidByteError (of_char p)))
      | Some a \<Rightarrow> ([], Some ErrLength))"
| "hex_DecodeString [] = ([], None)"

subsection \<open>\<open>json.Marshal\<close> of the datagram body\<close>

text \<open>
  \<open>json.Marshal\<close> writes a struct as an object with the keys of the \<open>json\<close> tags, in the
  order of the fields and without white space, integers in decimal, a slice as an array
  (a nil slice as \<open>null\<close>). It fails on a floating-point number that is infinite or not
  a number. The text of a finite floating-point number and the quoting of a string
  (escapes, invalid UTF-8) are left to three parameters.
\<close>

record json_text =
  quote :: "string \<Rightarrow> string"
  float32_text :: "float32 \<Rightarrow> string"
  float64_text :: "float64 \<Rightarrow> string"

definition marshal_pfpacket :: "json_text \<Rightarrow> pfpacket \<Rightarrow> go_error + string" where
  "marshal_pfpacket jt p =
     (if \<not> float64_finite (LSNR p) then Inl UnsupportedValueError
      else Inr (
        [CHR ''{'', CHR 0x22] @ ''time'' @ [CHR 0x22, CHR '':''] @ quote jt (Time p)
        @ [CHR '','', CHR 0x22] @ ''tmms'' @ [CHR 0x22, CHR '':''] @ fmt_uint (unat (TMMS p))
        @ [CHR '','', CHR 0x22] @ ''tmst'' @ [CHR 0x22, CHR '':''] @ fmt_uint (unat (TMST p))
        @ [CHR '','', CHR 0x22] @ ''chan'' @ [CHR 0x22, CHR '':''] @ fmt_uint (unat (Chan p))
        @ [CHR '','', CHR 0x22] @ ''rfch'' @ [CHR 0x22, CHR '':''] @ fmt_uint (unat (RFCH p))
        @ [CHR '','', CHR 0x22] @ ''freq'' @ [CHR 0x22, CHR '':''] @ float32_text jt (Freq p)
        @ [CHR '','', CHR 0x22] @ ''stat'' @ [CHR 0x22, CHR '':''] @ fmt_int (sint (Stat p))
        @ [CHR '','', CHR 0x22] @ ''modu'' @ [CHR 0x22, CHR '':''] @ quote jt (Modu p)
        @ [CHR '','', CHR 0x22] @ ''datr'' @ [CHR 0x22, CHR '':''] @ quote jt (DatR p)
        @ [CHR '','', CHR 0x22] @ ''codr'' @ [CHR 0x22, CHR '':''] @ quote jt (CorR p)
        @ [CHR '','', CHR 0x22] @ ''rssi'' @ [CHR 0x22, CHR '':''] @ fmt_int (sint (RSSI p))
        @ [CHR '','', CHR 0x22] @ ''lsnr'' @ [CHR 0x22, CHR '':''] @ float64_text jt (LSNR p)
        @ [CHR '','', CHR 0x22] @ ''size'' @ [CHR 0x22, CHR '':''] @ fmt_uint (unat (Size p))
        @ [CHR '','', CHR 0x22] @ ''data'' @ [CHR 0x22, CHR '':''] @ quote jt (Data p)
        @ [CHR ''}'']))"

fun marshal_elements :: "json_text \<Rightarrow> pfpacket list \<Rightarrow> go_error + string" where
  "marshal_elements jt [] = Inr []"
| "marshal_elements jt [p] = marshal_pfpacket jt p"
| "marshal_elements jt (p # ps) =
     (case marshal_pfpacket jt p of
        Inl e \<Rightarrow> Inl e
      | Inr s \<Rightarrow>
          (case marshal_elements jt ps of
             Inl e \<Rightarrow> Inl e
           | Inr r \<Rightarrow> Inr (s @ [CHR '',''] @ r)))"

text \<open>An empty list stands for the nil slice; the program only ever passes one element.\<close>

definition json_Marshal :: "json_text \<Rightarrow> pfproto \<Rightarrow> go_error + string" where
  "json_Marshal jt proto =
     (if RXPK proto = [] then Inr ([CHR ''{'', CHR 0x22] @ ''rxpk'' @ [CHR 0x22, CHR '':''] @ ''null}'')
      else
        (case marshal_elements jt (RXPK proto) of
           Inl e \<Rightarrow> Inl e
         | Inr s \<Rightarrow>
             Inr ([CHR ''{'', CHR 0x22] @ ''rxpk'' @ [CHR 0x22, CHR '':'', CHR ''[''] @ s @ '']}'')))"

definition bytes_of :: "string \<Rightarrow> byte list" where
  "bytes_of s = map of_char s"

section \<open>The UDP client\<close>

subsection \<open>Environment and network\<close>

text \<open>
  What the program takes from outside is an explicit environment: the clock, the random
  number generator, the address parsers of package \<open>net\<close> and the answers of the
  operating system to dialling, writing and binding. What it does to the outside is
  recorded in the \<open>world\<close>: the datagrams handed to the network, the addresses it tried
  to bind, and the UDP listeners that are bound and live.
\<close>

record env =
  time_Now_RFC3339 :: string
  rand_Int :: int
  json :: json_text
  parseIPv4 :: "string \<Rightarrow> byte list option"
  parseIPv6 :: "string \<Rightarrow> byte list option"
  DialUDP_error :: "byte list \<Rightarrow> int \<Rightarrow> go_error option"
  Write_error :: "byte list \<Rightarrow> int \<Rightarrow> byte list \<Rightarrow> go_error option"
  bind_error :: "string \<Rightarrow> go_error option"

record world =
  network :: "(byte list \<times> int \<times> byte list) list"
  bind_attempts :: "string list"
  listeners :: "string list"

text \<open>
  \<open>net.ParseIP\<close> looks for the first \<open>.\<close> or \<open>:\<close> in the string and parses the whole
  string as IPv4 or as IPv6 accordingly; a string with neither is no address.
\<close>

fun ParseIP_scan :: "env \<Rightarrow> string \<Rightarrow> string \<Rightarrow> byte list option" where
  "ParseIP_scan e s [] = None"
| "ParseIP_scan e s (c # r) =
     (if c = CHR ''.'' then parseIPv4 e s
      else if c = CHR '':'' then parseIPv6 e s
      else ParseIP_scan e s r)"

definition net_ParseIP :: "env \<Rightarrow> string \<Rightarrow> byte list option" where
  "net_ParseIP e s = ParseIP_scan e s s"

subsection \<open>\<open>NSClient\<close>\<close>

text \<open>
  \<open>udpEvents_Data\<close> is the \<open>Data\<close> handler of the \<open>evio.Events\<close> field: \<open>Some f\<close> stands for
  the closure installed by \<open>Connect\<close>, which runs \<open>f\<close> on the datagram, drops its result
  and sends no reply.
\<close>

type_synonym udpPacketCallback = "byte list \<Rightarrow> go_error option"

record NSClient =
  Server :: string
  Port :: int
  connected :: bool
  udpEvents_Data :: "udpPacketCallback option"

definition IsConnected :: "NSClient \<Rightarrow> bool" where
  "IsConnected client = connected client"

text \<open>
  \<open>evio.Serve(events, bindpoint)\<close> binds the address and then serves until shut down; when
  the bind fails it returns the error at once and no listener exists.
\<close>

definition evio_Serve :: "env \<Rightarrow> string \<Rightarrow> world \<Rightarrow> go_error option \<times> world" where
  "evio_Serve e bindpoint w =
     (let w1 = w\<lparr>bind_attempts := bind_attempts w @ [bindpoint]\<rparr> in
      case bind_error e bindpoint of
        Some err \<Rightarrow> (Some err, w1)
      | None \<Rightarrow> (None, w1\<lparr>listeners := listeners w1 @ [bindpoint]\<rparr>))"

text \<open>
  \<open>Connect\<close> starts \<open>evio.Serve\<close> with a \<open>go\<close> statement: the call runs in its own
  goroutine and its result is discarded. Only the effect of the goroutine on the world
  is kept.
\<close>

definition Connect ::
  "env \<Rightarrow> NSClient \<Rightarrow> udpPacketCallback \<Rightarrow> world \<Rightarrow> go_error option \<times> NSClient \<times> world" where
  "Connect e client onReceive w =
     (let client1 = client\<lparr>udpEvents_Data := Some onReceive\<rparr>;
          bindpoint = ''udp://0.0.0.0:'' @ fmt_int (Port client1);
          w1 = snd (evio_Serve e bindpoint w);
          client2 = client1\<lparr>connected := True\<rparr>
      in (None, client2, w1))"

definition send :: "env \<Rightarrow> NSClient \<Rightarrow> byte list \<Rightarrow> world \<Rightarrow> go_error option \<times> world" where
  "send e client bytes w =
     (case net_ParseIP e (Server client) of
        None \<Rightarrow> (Some (ErrorString ''bad network server IP''), w)
      | Some ip \<Rightarrow>
          (case DialUDP_error e ip (Port client) of
             Some err \<Rightarrow> (Some err, w)
           | None \<Rightarrow>
               (case Write_error e ip (Port client) bytes of
                  Some err \<Rightarrow> (Some err, w)
                | None \<Rightarrow> (None, w\<lparr>network := network w @ [(ip, Port client, bytes)]\<rparr>))))"

text \<open>
  \<open>sendWithPayload\<close>: build the rxpk record, marshal \<open>pfproto{RXPK: []pfpacket{packet}}\<close>,
  build the header from a random token, decode the gateway MAC, join the three parts
  and call \<open>client.send(datagram)\<close>. The result of \<open>send\<close> is not looked at; the function
  ends with \<open>return nil\<close>.
\<close>

definition sendWithPayload ::
  "env \<Rightarrow> NSClient \<Rightarrow> byte list \<Rightarrow> string \<Rightarrow> UplinkRXInfo option \<Rightarrow> UplinkTXInfo option \<Rightarrow> world
   \<Rightarrow> go_error option outcome \<times> world" where
  "sendWithPayload e client payload gwMAC rxInfo txInfo w =
     (case build_rxpk (time_Now_RFC3339 e) payload rxInfo txInfo of
        Panic m \<Rightarrow> (Panic m, w)
      | Returns packet \<Rightarrow>
          (let proto = \<lparr>RXPK = [packet]\<rparr> in
           case json_Marshal (json e) proto of
             Inl err \<Rightarrow> (Returns (Some err), w)
           | Inr packetJSON \<Rightarrow>
               (let version = 0x02;
                    token = rand_Int e;
                    tokenlsb = word_of_int (token AND 0x00FF);
                    tokenmsb = word_of_int (drop_bit 8 (token AND 0xFF00));
                    ident = 0x00;
                    header = [version, tokenmsb, tokenlsb, ident]
                in case hex_DecodeString gwMAC of
                     (gwbytes, Some err) \<Rightarrow> (Returns (Some err), w)
                   | (gwbytes, None) \<Rightarrow>
                       (let jsonbytes = bytes_of packetJSON;
                            datagram = header @ gwbytes @ jsonbytes;
                            w1 = snd (send e client datagram w)
                        in (Returns None, w1)))))"

section \<open>The forwarder form: \<open>forwarderConnect\<close>\<close>

text \<open>
  The package-level variables that \<open>forwarderConnect\<close> touches: the configuration
  (\<open>config.Forwarder.Server\<close>, \<open>config.Forwarder.Port\<close>, \<open>config.GW.MAC\<close>) and the client
  \<open>cNSClient\<close>. The call site passes \<open>config.GW.MAC\<close> as a first argument that the
  \<open>Connect\<close> of package \<open>lds\<close> does not declare; the callback is the argument that
  \<open>Connect\<close> uses.
\<close>

record globals =
  config_Forwarder_Server :: string
  config_Forwarder_Port :: string
  config_GW_MAC :: string
  cNSClient :: NSClient

definition forwarderConnect ::
  "env \<Rightarrow> udpPacketCallback \<Rightarrow> globals \<Rightarrow> world \<Rightarrow> go_error option \<times> globals \<times> world" where
  "forwarderConnect e onIncomingDownlink g w =
     (case Atoi (config_Forwarder_Port g) of
        Inl err \<Rightarrow> (Some err, g, w)
      | Inr port \<Rightarrow>
          (let c1 = (cNSClient g)\<lparr>Server := config_Forwarder_Server g\<rparr>;
               c2 = c1\<lparr>Port := port\<rparr>
           in case Connect e c2 onIncomingDownlink w of
                (err, c3, w1) \<Rightarrow> (None, g\<lparr>cNSClient := c3\<rparr>, w1)))"

section \<open>Notions the claims use\<close>

text \<open>
  The value of a string of decimal digits, read from the left, to say what the text
  written by \<open>%d\<close> denotes.
\<close>

definition is_digit :: "char \<Rightarrow> bool" where
  "is_digit c = (c \<in> set ''0123456789'')"

definition decimal_value :: "string \<Rightarrow> nat" where
  "decimal_value s = foldl (\<lambda>a c. 10 * a + (of_char c - 48)) 0 s"

text \<open>
  A decimal number, as a port is written: an optional sign and at least one digit. A
  string of hexadecimal digits that spells whole bytes: an even number of them.
\<close>

definition is_decimal_number :: "string \<Rightarrow> bool" where
  "is_decimal_number s =
     (let body = (case s of [] \<Rightarrow> [] | c # r \<Rightarrow> if c = CHR ''-'' \<or> c = CHR ''+'' then r else s)
      in body \<noteq> [] \<and> list_all is_digit body)"

definition is_hex_digit :: "char \<Rightarrow> bool" where
  "is_hex_digit c = (c \<in> set ''0123456789abcdefABCDEF'')"

definition valid_hex :: "string \<Rightarrow> bool" where
  "valid_hex s = (even (length s) \<and> list_all is_hex_digit s)"

text \<open>
  Inputs for the examples: a frame received one second after the GPS epoch on channel 2
  with spreading factor 7 and bandwidth 125, and a five-byte payload.
\<close>

definition example_rxInfo :: UplinkRXInfo where
  "example_rxInfo =
     \<lparr>TimeSinceGpsEpoch = Some \<lparr>Seconds = 1, Nanos = 0\<rparr>,
      Channel = 2, RfChain = 1, Rssi = - 57, LoraSnr = 0\<rparr>"

definition example_txInfo :: UplinkTXInfo where
  "example_txInfo =
     \<lparr>Frequency = 0,
      Modulation_Info = Lora (Some \<lparr>Bandwidth = 125, SpreadingFactor = 7, CodeRate = ''4/5''\<rparr>)\<rparr>"

definition example_payload :: "byte list" where
  "example_payload = [0xDE, 0xAD, 0xBE, 0xEF, 0x01]"

text \<open>
  An environment in which everything succeeds: the clock shows noon on 17 February 2020,
  \<open>127.0.0.1\<close> is the one address the IPv4 parser is asked about, dialling, writing and
  binding succeed. Its JSON texts are exact on the example metadata, whose two
  floating-point numbers are zero and whose strings need no escape. In
  \<open>port_in_use_env\<close> every bind fails. The example client is disconnected and talks to
  \<open>127.0.0.1:1700\<close>; the example configuration spells the port with two letters \<open>O\<close>.
\<close>

definition example_env :: env where
  "example_env =
     \<lparr>time_Now_RFC3339 = ''2020-02-17T12:00:00Z'',
      rand_Int = 0x1234ABCD,
      json = \<lparr>quote = (\<lambda>s. [CHR 0x22] @ s @ [CHR 0x22]),
              float32_text = (\<lambda>x. ''0''),
              float64_text = (\<lambda>x. ''0'')\<rparr>,
      parseIPv4 = (\<lambda>s. if s = ''127.0.0.1''
                          then Some [0, 0, 0, 0, 0, 0, 0, 0, 0, 0, 0xFF, 0xFF, 127, 0, 0, 1]
                          else None),
      parseIPv6 = (\<lambda>s. None),
      DialUDP_error = (\<lambda>ip port. None),
      Write_error = (\<lambda>ip port bytes. None),
      bind_error = (\<lambda>bindpoint. None)\<rparr>"

definition port_in_use_env :: env where
  "port_in_use_env =
     example_env\<lparr>bind_error := (\<lambda>bindpoint. Some (OpError ''bind: address already in use''))\<rparr>"

definition example_client :: NSClient where
  "example_client = \<lparr>Server = ''127.0.0.1'', Port = 1700, connected = False, udpEvents_Data = None\<rparr>"

definition quiet_world :: world where
  "quiet_world = \<lparr>network = [], bind_attempts = [], listeners = []\<rparr>"

definition example_globals :: globals where
  "example_globals =
     \<lparr>config_Forwarder_Server = ''127.0.0.1'', config_Forwarder_Port = ''17OO'',
      config_GW_MAC = ''0011223344556677'', cNSClient = example_client\<rparr>"

section \<open>Properties\<close>

subsection \<open>The inbound decoder\<close>

lemma dataSize_header: "dataSize header_struct = 4"
  by (simp add: dataSize_def header_struct_def)

lemma decode_header_panics: "decode_fields header_struct buf = Panic SetInt_unexported"
  by (simp add: header_struct_def exported_def)

lemma UDPParsePacket_short:
  "length packet < 4 \<Longrightarrow>
   UDPParsePacket packet result =
     Returns (False, Some (if packet = [] then EOF else ErrUnexpectedEOF), result)"
  by (simp add: UDPParsePacket_def binary_Read_def dataSize_header)

lemma UDPParsePacket_long:
  "4 \<le> length packet \<Longrightarrow> UDPParsePacket packet result = Panic SetInt_unexported"
  by (simp add: UDPParsePacket_def binary_Read_def dataSize_header decode_header_panics)

text \<open>Whatever the input, the decoder never reports a downlink.\<close>

lemma UDPParsePacket_never_downlink:
  "UDPParsePacket packet result \<noteq> Returns (True, err, result')"
  by (simp add: UDPParsePacket_def split: outcome.splits sum.splits)

text \<open>
  The library model on a struct with exported field names: the same four bytes are
  decoded, little-endian and signed.
\<close>

lemma binary_Read_exported_example:
  "binary_Read [0x02, 0x34, 0x12, 0x83] [(''Version'', Int8), (''Token'', Int16), (''Id'', Int8)]
   = Returns (Inr [(''Version'', 2), (''Token'', 0x1234), (''Id'', - 125)])"
  by (simp add: binary_Read_def dataSize_def exported_def)

text \<open>
  C1 (the code departs from the claim). The claim: for every input,
  \<open>UDPParsePacket\<close> returns \<open>isDownlink = false\<close> when the message-id byte is not
  \<open>0x03\<close>, returns a decode error for an input shorter than 4 bytes, and never panics.
  The short inputs behave as claimed (\<open>UDPParsePacket_short\<close>). On the 4-byte PUSH_DATA
  header \<open>02 12 34 00\<close>, whose id byte is \<open>0x00\<close>, the function does not return:
  \<open>binary.Read\<close> panics when it stores the first header field, because the fields of
  the header struct are unexported.
\<close>

theorem UDPParsePacket_push_data_header_panics:
  "UDPParsePacket [0x02, 0x12, 0x34, 0x00] (Map.empty :: string \<rightharpoonup> string)
   = Panic SetInt_unexported"
  by (simp add: UDPParsePacket_def binary_Read_def dataSize_header decode_header_panics)

text \<open>
  C2 (the code departs from the claim). The claim: for every datagram of at least 4
  bytes whose message-id byte is \<open>0x03\<close>, \<open>UDPParsePacket\<close> returns \<open>isDownlink = false\<close>,
  a nil error and an empty result map. On the PULL_RESP datagram \<open>02 12 34 03\<close> followed
  by the body \<open>{}\<close> the function returns nothing: it panics in \<open>binary.Read\<close>, before the
  id byte is looked at and before the result map is replaced.
\<close>

theorem UDPParsePacket_pull_resp_panics:
  "UDPParsePacket [0x02, 0x12, 0x34, 0x03, 0x7B, 0x7D] [''txpk'' \<mapsto> ''old'']
   = Panic SetInt_unexported"
  by (simp add: UDPParsePacket_def binary_Read_def dataSize_header decode_header_panics)

subsection \<open>The base64 text of the payload\<close>

lemma m6: "(0x3F :: 64 word) = mask 6" by (simp add: mask_eq_exp_minus_1)

lemma nth_encodeStd:
  "i < 64 \<Longrightarrow> decode_char (encodeStd ! i) = Some (of_nat i) \<and> encodeStd ! i \<noteq> CHR ''=''"
  unfolding encodeStd_def decode_char_def
  apply (simp only: less_Suc_eq numeral_eq_Suc pred_numeral_simps Num.BitM.simps Num.num.simps)
  apply (elim disjE)
  apply (simp_all)
  done

lemma unat_sextet: "unat ((v :: 64 word) AND 0x3F) < 64"
proof -
  have "v AND 0x3F \<le> 0x3F" by (rule word_and_le1)
  then show ?thesis by (simp add: word_le_nat_alt)
qed

lemma decode_enc64: "decode_char (enc64 v) = Some (v AND 0x3F)"
  using nth_encodeStd[OF unat_sextet[of v]] by (simp add: enc64_def)

lemma enc64_not_pad: "enc64 v \<noteq> CHR ''=''"
  using nth_encodeStd[OF unat_sextet[of v]] by (simp add: enc64_def)

lemma Suc_Suc_minus_2: "2 \<le> n \<Longrightarrow> Suc (Suc (n - 2)) = n" by simp

lemma triple_first:
  fixes a b c :: byte
  defines "val \<equiv> (push_bit 16 (ucast a) OR push_bit 8 (ucast b) OR ucast c :: 64 word)"
  shows "(ucast (push_bit 2 (drop_bit 18 val AND 0x3F) OR drop_bit 4 (drop_bit 12 val AND 0x3F)) :: byte) = a"
  unfolding val_def m6
  by (rule bit_word_eqI) (auto simp: bit_simps Suc_Suc_minus_2 dest: bit_imp_le_length)

lemma triple_second:
  fixes a b c :: byte
  defines "val \<equiv> (push_bit 16 (ucast a) OR push_bit 8 (ucast b) OR ucast c :: 64 word)"
  shows "(ucast (push_bit 4 (drop_bit 12 val AND 0x3F) OR drop_bit 2 (drop_bit 6 val AND 0x3F)) :: byte) = b"
  unfolding val_def m6
  by (rule bit_word_eqI) (auto simp: bit_simps Suc_Suc_minus_2 dest: bit_imp_le_length)

lemma triple_third:
  fixes a b c :: byte
  defines "val \<equiv> (push_bit 16 (ucast a) OR push_bit 8 (ucast b) OR ucast c :: 64 word)"
  shows "(ucast (push_bit 6 (drop_bit 6 val AND 0x3F) OR (val AND 0x3F)) :: byte) = c"
  unfolding val_def m6
  by (rule bit_word_eqI) (auto simp: bit_simps Suc_Suc_minus_2 dest: bit_imp_le_length)

lemma pair_first:
  fixes a b :: byte
  defines "val \<equiv> (push_bit 16 (ucast a) OR push_bit 8 (ucast b) :: 64 word)"
  shows "(ucast (push_bit 2 (drop_bit 18 val AND 0x3F) OR drop_bit 4 (drop_bit 12 val AND 0x3F)) :: byte) = a"
  unfolding val_def m6
  by (rule bit_word_eqI) (auto simp: bit_simps Suc_Suc_minus_2 dest: bit_imp_le_length)

lemma pair_second:
  fixes a b :: byte
  defines "val \<equiv> (push_bit 16 (ucast a) OR push_bit 8 (ucast b) :: 64 word)"
  shows "(ucast (push_bit 4 (drop_bit 12 val AND 0x3F) OR drop_bit 2 (drop_bit 6 val AND 0x3F)) :: byte) = b"
  unfolding val_def m6
  by (rule bit_word_eqI) (auto simp: bit_simps Suc_Suc_minus_2 dest: bit_imp_le_length)

lemma single_first:
  fixes a :: byte
  defines "val \<equiv> (push_bit 16 (ucast a) :: 64 word)"
  shows "(ucast (push_bit 2 (drop_bit 18 val AND 0x3F) OR drop_bit 4 (drop_bit 12 val AND 0x3F)) :: byte) = a"
  unfolding val_def m6
  by (rule bit_word_eqI) (auto simp: bit_simps Suc_Suc_minus_2 dest: bit_imp_le_length)

lemma Decode_Encode_triple:
  "DecodeString (EncodeToString (s0 # s1 # s2 # src)) =
     (case DecodeString (EncodeToString src) of
        None \<Rightarrow> None
      | Some bs \<Rightarrow> Some (s0 # s1 # s2 # bs))"
  by (simp only: EncodeToString.simps Let_def DecodeString.simps decode_enc64 enc64_not_pad
        triple_first triple_second triple_third option.case prod.case simp_thms if_False)

lemma Decode_Encode_pair: "DecodeString (EncodeToString [s0, s1]) = Some [s0, s1]"
  by (simp only: EncodeToString.simps Let_def DecodeString.simps decode_enc64 enc64_not_pad
        pair_first pair_second option.case prod.case simp_thms if_False if_True)

lemma Decode_Encode_single: "DecodeString (EncodeToString [s0]) = Some [s0]"
  by (simp only: EncodeToString.simps Let_def DecodeString.simps decode_enc64 enc64_not_pad
        single_first option.case prod.case simp_thms if_False if_True)

lemma DecodeString_EncodeToString: "DecodeString (EncodeToString xs) = Some xs"
proof (induction xs rule: EncodeToString.induct)
  case (1 s0 s1 s2 src)
  then show ?case by (simp only: Decode_Encode_triple option.case)
next
  case (2 s0 s1)
  show ?case by (rule Decode_Encode_pair)
next
  case (3 s0)
  show ?case by (rule Decode_Encode_single)
next
  case 4
  show ?case by simp
qed

lemma build_rxpk_Returns:
  "GetTimeSinceGpsEpoch rxInfo \<noteq> None \<Longrightarrow> GetLoraModulationInfo txInfo \<noteq> None \<Longrightarrow>
   \<exists>p. build_rxpk utc payload rxInfo txInfo = Returns p"
  by (auto simp: build_rxpk_def toMilliseconds_def Let_def)

text \<open>
  Without a GPS time or without LoRa modulation information no record is built: the
  call panics on the nil pointer, and so does \<open>sendWithPayload\<close>, before anything is
  sent.
\<close>

lemma build_rxpk_nil_pointer:
  "GetTimeSinceGpsEpoch rxInfo = None \<or> GetLoraModulationInfo txInfo = None \<Longrightarrow>
   build_rxpk utc payload rxInfo txInfo = Panic nil_deref"
  by (auto simp: build_rxpk_def toMilliseconds_def Let_def split: option.splits)

lemma sendWithPayload_nil_pointer:
  "GetTimeSinceGpsEpoch rxInfo = None \<or> GetLoraModulationInfo txInfo = None \<Longrightarrow>
   sendWithPayload e client payload gwMAC rxInfo txInfo w = (Panic nil_deref, w)"
  by (simp add: sendWithPayload_def build_rxpk_nil_pointer)

lemma build_rxpk_Data_Size:
  "build_rxpk utc payload rxInfo txInfo = Returns p \<Longrightarrow>
   Data p = EncodeToString payload \<and> Size p = of_nat (length payload)"
  by (auto simp: build_rxpk_def Let_def split: outcome.splits option.splits)

text \<open>
  C5. For every payload of at most 250 bytes and every metadata, the \<open>data\<close> field of the
  rxpk record that \<open>sendWithPayload\<close> builds decodes, as padded base64, to exactly the
  payload, and the \<open>size\<close> field is the length of the payload. The record exists whenever
  the metadata carries a GPS time and LoRa modulation information.
\<close>

theorem rxpk_data_roundtrip:
  "length payload \<le> 250 \<Longrightarrow>
   (GetTimeSinceGpsEpoch rxInfo \<noteq> None \<and> GetLoraModulationInfo txInfo \<noteq> None \<longrightarrow>
      (\<exists>p. build_rxpk utc payload rxInfo txInfo = Returns p)) \<and>
   (\<forall>p. build_rxpk utc payload rxInfo txInfo = Returns p \<longrightarrow>
      DecodeString (Data p) = Some payload \<and> unat (Size p) = length payload)"
proof (intro conjI impI allI)
  assume "GetTimeSinceGpsEpoch rxInfo \<noteq> None \<and> GetLoraModulationInfo txInfo \<noteq> None"
  then show "\<exists>p. build_rxpk utc payload rxInfo txInfo = Returns p"
    by (simp add: build_rxpk_Returns)
next
  fix p
  assume "build_rxpk utc payload rxInfo txInfo = Returns p"
  then have "Data p = EncodeToString payload"
    by (simp add: build_rxpk_Data_Size)
  then show "DecodeString (Data p) = Some payload"
    by (simp add: DecodeString_EncodeToString)
next
  fix p
  assume len: "length payload \<le> 250" and "build_rxpk utc payload rxInfo txInfo = Returns p"
  then have "Size p = of_nat (length payload)"
    by (simp add: build_rxpk_Data_Size)
  moreover from len have "length payload < 2 ^ 32" by simp
  ultimately show "unat (Size p) = length payload"
    by (simp add: unat_of_nat)
qed

theorem rxpk_data_roundtrip_witness:
  "length example_payload \<le> 250 \<and>
   (\<exists>p. build_rxpk ''2020-02-17T12:00:00Z'' example_payload (Some example_rxInfo) (Some example_txInfo)
          = Returns p \<and>
        DecodeString (Data p) = Some example_payload \<and> unat (Size p) = 5)"
proof -
  have len: "length example_payload \<le> 250"
    by (simp add: example_payload_def)
  have meta: "GetTimeSinceGpsEpoch (Some example_rxInfo) \<noteq> None \<and>
      GetLoraModulationInfo (Some example_txInfo) \<noteq> None"
    by (simp add: GetTimeSinceGpsEpoch_def GetLoraModulationInfo_def example_rxInfo_def
        example_txInfo_def)
  from rxpk_data_roundtrip [OF len, of "Some example_rxInfo" "Some example_txInfo"
      "''2020-02-17T12:00:00Z''"] meta
  obtain p where p: "build_rxpk ''2020-02-17T12:00:00Z'' example_payload (Some example_rxInfo)
      (Some example_txInfo) = Returns p"
    and "DecodeString (Data p) = Some example_payload \<and> unat (Size p) = length example_payload"
    by blast
  then show ?thesis using len by (auto simp: example_payload_def)
qed

subsection \<open>The data rate text\<close>

text \<open>
  The text that \<open>%d\<close> writes consists of decimal digits and denotes the number.
\<close>

lemma digit_is_digit: "d < 10 \<Longrightarrow> is_digit (digit d) \<and> of_char (digit d) - 48 = d"
proof -
  assume "d < 10"
  then consider "d = 0" | "d = 1" | "d = 2" | "d = 3" | "d = 4"
    | "d = 5" | "d = 6" | "d = 7" | "d = 8" | "d = 9"
    by atomize_elim arith
  then show ?thesis
    by cases (simp_all add: is_digit_def digit_def char_of_def bit_iff_odd)
qed

lemma decimal_value_snoc: "decimal_value (s @ [c]) = 10 * decimal_value s + (of_char c - 48)"
  by (simp add: decimal_value_def)

lemma fmt_uint_decimal: "list_all is_digit (fmt_uint n) \<and> decimal_value (fmt_uint n) = n"
proof (induction n rule: fmt_uint.induct)
  case (1 n)
  show ?case
  proof (cases "n < 10")
    case True
    then show ?thesis
      using digit_is_digit[of n] by (simp add: fmt_uint.simps[of n] decimal_value_def)
  next
    case False
    have d: "is_digit (digit (n mod 10)) \<and> of_char (digit (n mod 10)) - 48 = n mod 10"
      by (rule digit_is_digit) simp
    from False 1 have ih: "list_all is_digit (fmt_uint (n div 10)) \<and> decimal_value (fmt_uint (n div 10)) = n div 10"
      by simp
    from False have eq: "fmt_uint n = fmt_uint (n div 10) @ [digit (n mod 10)]"
      by (simp add: fmt_uint.simps[of n])
    show ?thesis
      unfolding eq using ih d by (simp add: decimal_value_snoc)
  qed
qed



subsection \<open>The GPS time in milliseconds\<close>

lemma unat_scast_nonneg:
  fixes n :: "32 word"
  assumes "0 \<le> sint n"
  shows "unat (scast n :: 64 word) = nat (sint n)"
proof -
  have "sint n < 2 ^ 31"
    using sint_lt [of n] by simp
  then have "sint n < 2 ^ 64"
    by simp
  with assms have tb: "take_bit 64 (sint n) = sint n"
    by (simp add: take_bit_int_eq_self)
  have "uint (word_of_int (sint n) :: 64 word) = take_bit 64 (sint n)"
    by (simp only: uint_word_of_int_eq len_bit0 len_num1 mult_2 one_add_one numeral_plus_numeral
        arith_simps)
  then have "unat (word_of_int (sint n) :: 64 word) = nat (sint n)"
    by (simp only: unat_eq_nat_uint tb)
  then show ?thesis
    by (simp only: scast_eq)
qed


lemma unat_tmms:
  fixes s n :: "64 word"
  assumes "unat s < 2 ^ 50" "unat n < 2 ^ 31"
  shows "unat ((s * 1000 + n div 1000) div 1000) = unat s + unat n div 1000000"
proof -
  have 1: "unat (s * 1000) = unat s * 1000"
    using assms(1) by (simp add: unat_word_ariths)
  have 2: "unat (n div 1000) = unat n div 1000"
    by (simp add: unat_div)
  have 3: "unat (s * 1000 + n div 1000) = unat s * 1000 + unat n div 1000"
    using assms 1 2 by (simp add: unat_word_ariths)
  have "unat ((s * 1000 + n div 1000) div 1000) = (unat s * 1000 + unat n div 1000) div 1000"
    by (simp add: unat_div 3)
  also have "\<dots> = unat s + unat n div 1000000"
    by (simp add: div_mult2_eq)
  finally show ?thesis .
qed


text \<open>
  What the code puts into \<open>tmms\<close>, for a GPS time of \<open>s\<close> seconds and \<open>n\<close> nanoseconds
  (\<open>0 \<le> n\<close>, \<open>s\<close> below \<open>2 ^ 50\<close>): the number \<open>s + n div 1000000\<close>. \<open>toMilliseconds\<close> divides the
  nanoseconds by 1000 instead of 1000000, and \<open>sendWithPayload\<close> divides its result by
  1000 once more.
\<close>

lemma rxpk_tmms_value:
  assumes gps: "GetTimeSinceGpsEpoch rxInfo = Some d"
    and s: "unat (Seconds d) < 2 ^ 50" and n: "0 \<le> sint (Nanos d)"
    and p: "build_rxpk utc payload rxInfo txInfo = Returns p"
  shows "unat (TMMS p) = unat (Seconds d) + nat (sint (Nanos d)) div 1000000"
proof -
  have "sint (Nanos d) < 2 ^ 31"
    using sint_lt [of "Nanos d"] by simp
  with n have "unat (scast (Nanos d) :: 64 word) < 2 ^ 31"
    by (simp add: unat_scast_nonneg)
  from unat_tmms [OF s this] have
    "unat ((Seconds d * 1000 + scast (Nanos d) div 1000) div 1000)
       = unat (Seconds d) + nat (sint (Nanos d)) div 1000000"
    by (simp add: unat_scast_nonneg n)
  moreover from p gps have "TMMS p = (Seconds d * 1000 + scast (Nanos d) div 1000) div 1000"
    by (auto simp: build_rxpk_def toMilliseconds_def Let_def split: option.splits)
  ultimately show ?thesis by simp
qed

text \<open>
  C8 (the code departs from the claim). The claim: \<open>tmms\<close> is the number of milliseconds
  since the GPS epoch, \<open>s * 1000 + n div 1000000\<close>. For a frame received one second after
  the epoch (\<open>s = 1\<close>, \<open>n = 0\<close>) \<open>toMilliseconds\<close> does give 1000, but the record carries
  \<open>tmms = 1\<close>.
\<close>

theorem tmms_one_second:
  "toMilliseconds (Some \<lparr>Seconds = 1, Nanos = 0\<rparr>) = Returns 1000 \<and>
   (\<exists>p. build_rxpk ''2020-02-17T12:00:00Z'' example_payload (Some example_rxInfo) (Some example_txInfo)
          = Returns p \<and> TMMS p = 1 \<and> TMMS p \<noteq> 1 * 1000 + 0 div 1000000)"
  by (simp add: build_rxpk_def toMilliseconds_def GetTimeSinceGpsEpoch_def
      GetLoraModulationInfo_def example_rxInfo_def example_txInfo_def Let_def)

subsection \<open>Characters, digits and \<open>strconv.Atoi\<close>\<close>

lemma mem_chars_iff: "c \<in> set cs \<longleftrightarrow> (of_char c :: nat) \<in> set (map of_char cs)"
  by (auto simp: image_iff)

lemma is_hex_digit_ranges:
  "is_hex_digit c \<longleftrightarrow>
     (48 \<le> (of_char c :: nat) \<and> (of_char c :: nat) \<le> 57) \<or>
     (97 \<le> (of_char c :: nat) \<and> (of_char c :: nat) \<le> 102) \<or>
     (65 \<le> (of_char c :: nat) \<and> (of_char c :: nat) \<le> 70)"
  unfolding is_hex_digit_def mem_chars_iff [of c]
  by (simp) arith

lemma is_digit_range: "is_digit c \<longleftrightarrow> 48 \<le> (of_char c :: nat) \<and> (of_char c :: nat) \<le> 57"
  unfolding is_digit_def mem_chars_iff [of c]
  by (simp) arith

lemma unat_of_char_byte: "unat (of_char c :: byte) = of_char c"
proof -
  have "(of_char c :: byte) = of_nat (of_char c)"
    by (simp only: of_nat_of_char)
  then show ?thesis
    by (simp add: unat_of_nat)
qed

lemma digit_val_None_iff: "digit_val c = None \<longleftrightarrow> \<not> is_digit c"
proof -
  have "unat ((of_char c :: byte) - 48) =
      (if 48 \<le> (of_char c :: nat) then of_char c - 48 else of_char c + 256 - 48)"
    by (simp add: unat_sub_if_size unat_of_char_byte word_size)
  then show ?thesis
    by (auto simp add: digit_val_def is_digit_range Let_def word_less_nat_alt)
qed

lemma digit_val_Some: "digit_val c = Some d \<Longrightarrow> is_digit c"
  using digit_val_None_iff [of c] by auto

lemma ParseUint_loop_non_digit:
  "\<not> list_all is_digit s \<Longrightarrow> \<exists>e. ParseUint_loop n s = Inl e"
proof (induction s arbitrary: n)
  case Nil
  then show ?case by simp
next
  case (Cons c s)
  show ?case
  proof (cases "digit_val c")
    case None
    then show ?thesis by simp
  next
    case (Some d)
    then have "is_digit c" by (rule digit_val_Some)
    with Cons.prems have "\<not> list_all is_digit s" by simp
    from Cons.IH [OF this] Some show ?thesis by simp
  qed
qed

lemma Atoi_not_decimal: "\<not> is_decimal_number s \<Longrightarrow> \<exists>err. Atoi s = Inl err"
proof (cases s)
  case Nil
  then show ?thesis by (simp add: Atoi_def)
next
  case (Cons c r)
  assume nd: "\<not> is_decimal_number s"
  define body where "body = (if c = CHR ''-'' \<or> c = CHR ''+'' then r else c # r)"
  from nd Cons have b: "body = [] \<or> \<not> list_all is_digit body"
    by (auto simp add: is_decimal_number_def body_def Let_def)
  have A: "Atoi s =
      (if body = [] then Inl (NumError ''Atoi'' (c # r) ErrSyntax)
       else
         (case ParseUint_loop 0 body of
            Inl e \<Rightarrow> Inl (NumError ''Atoi'' (c # r) e)
          | Inr un \<Rightarrow>
              if c \<noteq> CHR ''-'' \<and> un \<ge> 2 ^ 63 then Inl (NumError ''Atoi'' (c # r) ErrRange)
              else if c = CHR ''-'' \<and> un > 2 ^ 63 then Inl (NumError ''Atoi'' (c # r) ErrRange)
              else Inr (if c = CHR ''-'' then - int un else int un)))"
    unfolding Cons body_def by (simp add: Atoi_def Let_def)
  show ?thesis
  proof (cases "body = []")
    case True
    then show ?thesis by (simp add: A)
  next
    case False
    with b obtain e where "ParseUint_loop 0 body = Inl e"
      using ParseUint_loop_non_digit [of body 0] by auto
    with False show ?thesis by (simp add: A)
  qed
qed

subsection \<open>Connecting\<close>

lemma fmt_int_1700: "fmt_int 1700 = ''1700''"
  by (simp add: fmt_int_def fmt_uint.simps digit_def char_of_def bit_iff_odd)

lemma Atoi_1700: "Atoi ''1700'' = Inr 1700"
  by (simp add: Atoi_def digit_val_def Let_def)

lemma Connect_attempts_bind:
  "bind_attempts (snd (snd (Connect e client onReceive w)))
     = bind_attempts w @ [''udp://0.0.0.0:'' @ fmt_int (Port client)]"
  by (simp add: Connect_def evio_Serve_def Let_def split: option.splits)

text \<open>
  C9. When the configured port is not a decimal number, \<open>forwarderConnect\<close> returns the
  error of \<open>strconv.Atoi\<close> and changes nothing: the client keeps its fields and its
  connection state, and the world is the same, so no bind was attempted, no listener
  was started and \<open>Connect\<close> (which always attempts a bind, \<open>Connect_attempts_bind\<close>) was
  not called.
\<close>

theorem forwarderConnect_bad_port:
  "\<not> is_decimal_number (config_Forwarder_Port g) \<Longrightarrow>
   \<exists>err. Atoi (config_Forwarder_Port g) = Inl err \<and>
         forwarderConnect e onIncomingDownlink g w = (Some err, g, w)"
proof -
  assume "\<not> is_decimal_number (config_Forwarder_Port g)"
  then obtain err where "Atoi (config_Forwarder_Port g) = Inl err"
    using Atoi_not_decimal by blast
  then show ?thesis
    by (simp add: forwarderConnect_def)
qed

theorem forwarderConnect_bad_port_witness:
  "\<not> is_decimal_number (config_Forwarder_Port example_globals) \<and>
   forwarderConnect example_env (\<lambda>payload. None) example_globals quiet_world
     = (Some (NumError ''Atoi'' ''17OO'' ErrSyntax), example_globals, quiet_world) \<and>
   \<not> IsConnected (cNSClient example_globals) \<and>
   bind_attempts quiet_world = [] \<and> listeners quiet_world = []"
proof -
  have nd: "\<not> is_decimal_number (config_Forwarder_Port example_globals)"
    by (simp add: is_decimal_number_def example_globals_def is_digit_def)
  have "Atoi (config_Forwarder_Port example_globals) = Inl (NumError ''Atoi'' ''17OO'' ErrSyntax)"
    by (simp add: example_globals_def Atoi_def digit_val_def Let_def)
  with forwarderConnect_bad_port [OF nd, of example_env "\<lambda>payload. None" quiet_world] nd
  show ?thesis
    by (auto simp: IsConnected_def example_globals_def example_client_def quiet_world_def)
qed

text \<open>With a port that is a number the same call configures the client and connects.\<close>

lemma forwarderConnect_good_port:
  "forwarderConnect example_env cb (example_globals\<lparr>config_Forwarder_Port := ''1700''\<rparr>) quiet_world
     = (None,
        example_globals\<lparr>config_Forwarder_Port := ''1700'',
          cNSClient := \<lparr>Server = ''127.0.0.1'', Port = 1700, connected = True,
                        udpEvents_Data = Some cb\<rparr>\<rparr>,
        \<lparr>network = [], bind_attempts = [''udp://0.0.0.0:1700''],
         listeners = [''udp://0.0.0.0:1700'']\<rparr>)"
  by (simp add: forwarderConnect_def Atoi_1700 Connect_def evio_Serve_def fmt_int_1700
      example_globals_def example_client_def example_env_def quiet_world_def Let_def)

text \<open>
  Whatever the bind does, \<open>Connect\<close> returns nil and marks the client connected.
\<close>

lemma Connect_never_fails:
  "fst (Connect e client onReceive w) = None \<and>
   IsConnected (fst (snd (Connect e client onReceive w)))"
  by (simp add: Connect_def IsConnected_def Let_def)

text \<open>
  C4 (the code departs from the claim). The claim: when binding the listener fails,
  \<open>Connect\<close> returns the failure and \<open>IsConnected\<close> stays false; \<open>IsConnected\<close> becomes
  true only when the listener is bound and live. With port 1700 in use, \<open>evio.Serve\<close>
  fails to bind, yet \<open>Connect\<close> returns nil and \<open>IsConnected\<close> is true while the one bind
  that was attempted left no listener. The comment in the source says that
  \<open>IsConnected\<close> checks if the client is listening for incoming UDP; \<open>Connect\<close> starts
  \<open>evio.Serve\<close> with a \<open>go\<close> statement, drops its error and sets \<open>connected = true\<close>
  without looking at the bind.
\<close>

theorem Connect_port_in_use:
  "fst (evio_Serve port_in_use_env ''udp://0.0.0.0:1700'' quiet_world)
     = Some (OpError ''bind: address already in use'') \<and>
   fst (Connect port_in_use_env example_client (\<lambda>payload. None) quiet_world) = None \<and>
   IsConnected (fst (snd (Connect port_in_use_env example_client (\<lambda>payload. None) quiet_world))) \<and>
   bind_attempts (snd (snd (Connect port_in_use_env example_client (\<lambda>payload. None) quiet_world)))
     = [''udp://0.0.0.0:1700''] \<and>
   listeners (snd (snd (Connect port_in_use_env example_client (\<lambda>payload. None) quiet_world))) = []"
  by (simp add: Connect_def evio_Serve_def IsConnected_def fmt_int_1700 port_in_use_env_def
      example_env_def example_client_def quiet_world_def Let_def)

subsection \<open>The gateway MAC\<close>

lemma fromHexChar_None_iff: "fromHexChar c = None \<longleftrightarrow> \<not> is_hex_digit c"
  unfolding fromHexChar_def is_hex_digit_ranges Let_def by auto

lemma hex_DecodeString_error_iff: "snd (hex_DecodeString s) = None \<longleftrightarrow> valid_hex s"
proof (induction s rule: hex_DecodeString.induct)
  case (1 p q src)
  then show ?case
    using fromHexChar_None_iff [of p] fromHexChar_None_iff [of q]
    by (auto simp: valid_hex_def split: option.splits prod.splits)
next
  case (2 p)
  then show ?case by (simp add: valid_hex_def split: option.splits)
next
  case 3
  then show ?case by (simp add: valid_hex_def)
qed

lemma hex_DecodeString_length:
  "snd (hex_DecodeString s) = None \<Longrightarrow> 2 * length (fst (hex_DecodeString s)) = length s"
proof (induction s rule: hex_DecodeString.induct)
  case (1 p q src)
  then show ?case by (auto split: option.splits prod.splits)
next
  case (2 p)
  then show ?case by (simp split: option.splits)
next
  case 3
  then show ?case by simp
qed

lemma hex_DecodeString_example:
  "hex_DecodeString ''0011223344556677'' = ([0x00, 0x11, 0x22, 0x33, 0x44, 0x55, 0x66, 0x77], None)"
  by (simp add: fromHexChar_def)

lemma json_Marshal_single:
  "json_Marshal jt \<lparr>RXPK = [packet]\<rparr> =
     (case marshal_pfpacket jt packet of
        Inl e \<Rightarrow> Inl e
      | Inr obj \<Rightarrow>
          Inr ([CHR ''{'', CHR 0x22] @ ''rxpk'' @ [CHR 0x22, CHR '':'', CHR ''[''] @ obj @ '']}''))"
  by (simp add: json_Marshal_def)

lemma EncodeToString_example: "EncodeToString example_payload = ''3q2+7wE=''"
  by (simp add: example_payload_def enc64_def encodeStd_def Let_def)

lemma build_rxpk_example:
  "build_rxpk ''2020-02-17T12:00:00Z'' example_payload (Some example_rxInfo) (Some example_txInfo)
     = Returns \<lparr>Time = ''2020-02-17T12:00:00Z'', TMMS = 1, TMST = 0, Chan = 2, RFCH = 1,
         Freq = Float32_quotient 0 1000000, Stat = 1, Modu = ''LORA'', DatR = ''SF7BW125'',
         CorR = ''4/5'', RSSI = - 57, LSNR = 0, Size = 5, Data = ''3q2+7wE=''\<rparr>"
  by (simp add: build_rxpk_def EncodeToString_example toMilliseconds_def GetTimeSinceGpsEpoch_def
      GetLoraModulationInfo_def GetChannel_def GetRfChain_def GetFrequency_def GetBandwidth_def
      GetCodeRate_def GetRssi_def GetLoraSnr_def example_rxInfo_def example_txInfo_def
      fmt_uint.simps digit_def char_of_def bit_iff_odd Let_def)
    (simp add: example_payload_def)

text \<open>
  C10, as stated, fails: the claim says that for every metadata an invalid gateway MAC
  makes \<open>sendWithPayload\<close> return a non-nil error. For a frame whose metadata has no GPS
  time the call returns nothing: it panics on the nil pointer in \<open>toMilliseconds\<close>, before
  the MAC is looked at. Nothing is sent.
\<close>

theorem sendWithPayload_bad_mac_no_gps_counterexample:
  "\<not> valid_hex ''00112233445566GG'' \<and>
   GetTimeSinceGpsEpoch (Some (example_rxInfo\<lparr>TimeSinceGpsEpoch := None\<rparr>)) = None \<and>
   sendWithPayload example_env example_client example_payload ''00112233445566GG''
       (Some (example_rxInfo\<lparr>TimeSinceGpsEpoch := None\<rparr>)) (Some example_txInfo) quiet_world
     = (Panic nil_deref, quiet_world)"
proof -
  have g: "GetTimeSinceGpsEpoch (Some (example_rxInfo\<lparr>TimeSinceGpsEpoch := None\<rparr>)) = None"
    by (simp add: GetTimeSinceGpsEpoch_def)
  have "\<not> valid_hex ''00112233445566GG''"
    by (simp add: valid_hex_def is_hex_digit_def)
  with g show ?thesis
    by (simp add: sendWithPayload_nil_pointer)
qed

text \<open>
  C10, amended. When the gateway MAC is not valid hexadecimal, \<open>sendWithPayload\<close> leaves the
  world untouched for every payload and metadata (no datagram is written) and never
  returns nil; for every metadata that carries a GPS time and LoRa modulation
  information it returns a non-nil error: the failure ends the call before the send
  step.
\<close>

theorem sendWithPayload_bad_mac:
  "\<not> valid_hex gwMAC \<Longrightarrow>
   snd (sendWithPayload e client payload gwMAC rxInfo txInfo w) = w \<and>
   fst (sendWithPayload e client payload gwMAC rxInfo txInfo w) \<noteq> Returns None \<and>
   (GetTimeSinceGpsEpoch rxInfo \<noteq> None \<and> GetLoraModulationInfo txInfo \<noteq> None \<longrightarrow>
      (\<exists>err. fst (sendWithPayload e client payload gwMAC rxInfo txInfo w) = Returns (Some err)))"
proof -
  assume "\<not> valid_hex gwMAC"
  then obtain bs er where hex: "hex_DecodeString gwMAC = (bs, Some er)"
    using hex_DecodeString_error_iff [of gwMAC] by (cases "hex_DecodeString gwMAC") auto
  show ?thesis
  proof (cases "build_rxpk (time_Now_RFC3339 e) payload rxInfo txInfo")
    case (Panic m)
    have "\<not> (GetTimeSinceGpsEpoch rxInfo \<noteq> None \<and> GetLoraModulationInfo txInfo \<noteq> None)"
    proof
      assume "GetTimeSinceGpsEpoch rxInfo \<noteq> None \<and> GetLoraModulationInfo txInfo \<noteq> None"
      then obtain p where "build_rxpk (time_Now_RFC3339 e) payload rxInfo txInfo = Returns p"
        using build_rxpk_Returns by blast
      with Panic show False by simp
    qed
    with Panic show ?thesis
      by (simp add: sendWithPayload_def)
  next
    case (Returns packet)
    then show ?thesis
      by (cases "json_Marshal (json e) \<lparr>RXPK = [packet]\<rparr>")
        (simp_all add: sendWithPayload_def hex Let_def)
  qed
qed


theorem sendWithPayload_bad_mac_witness:
  "\<not> valid_hex ''00112233445566GG'' \<and>
   sendWithPayload example_env example_client example_payload ''00112233445566GG''
       (Some example_rxInfo) (Some example_txInfo) quiet_world
     = (Returns (Some (InvalidByteError 0x47)), quiet_world)"
proof -
  have nv: "\<not> valid_hex ''00112233445566GG''"
    by (simp add: valid_hex_def is_hex_digit_def)
  have meta: "GetTimeSinceGpsEpoch (Some example_rxInfo) \<noteq> None \<and>
      GetLoraModulationInfo (Some example_txInfo) \<noteq> None"
    by (simp add: GetTimeSinceGpsEpoch_def GetLoraModulationInfo_def example_rxInfo_def
        example_txInfo_def)
  have hex: "hex_DecodeString ''00112233445566GG''
      = ([0x00, 0x11, 0x22, 0x33, 0x44, 0x55, 0x66], Some (InvalidByteError 0x47))"
    by (simp add: fromHexChar_def)
  have now: "time_Now_RFC3339 example_env = ''2020-02-17T12:00:00Z''"
    by (simp add: example_env_def)
  from sendWithPayload_bad_mac [OF nv, of example_env example_client example_payload
      "Some example_rxInfo" "Some example_txInfo" quiet_world] meta
  obtain err where w: "snd (sendWithPayload example_env example_client example_payload
        ''00112233445566GG'' (Some example_rxInfo) (Some example_txInfo) quiet_world) = quiet_world"
    and r: "fst (sendWithPayload example_env example_client example_payload
        ''00112233445566GG'' (Some example_rxInfo) (Some example_txInfo) quiet_world)
        = Returns (Some err)"
    by blast
  from r have "err = InvalidByteError 0x47"
    by (simp add: sendWithPayload_def now build_rxpk_example json_Marshal_single
        marshal_pfpacket_def float64_finite_def hex Let_def del: hex_DecodeString.simps)
  with w r nv show ?thesis
    by (simp add: prod_eq_iff)
qed

subsection \<open>Sending\<close>

lemma send_bad_server:
  "net_ParseIP e (Server client) = None \<Longrightarrow>
   send e client bytes w = (Some (ErrorString ''bad network server IP''), w)"
  by (simp add: send_def)

lemma net_ParseIP_localhost: "net_ParseIP e ''localhost'' = None"
  by (simp add: net_ParseIP_def)

lemma sendWithPayload_drops_send_error:
  "build_rxpk (time_Now_RFC3339 e) payload rxInfo txInfo = Returns packet \<Longrightarrow>
   float64_finite (LSNR packet) \<Longrightarrow> valid_hex gwMAC \<Longrightarrow>
   fst (sendWithPayload e client payload gwMAC rxInfo txInfo w) = Returns None"
proof -
  assume b: "build_rxpk (time_Now_RFC3339 e) payload rxInfo txInfo = Returns packet"
    and f: "float64_finite (LSNR packet)" and v: "valid_hex gwMAC"
  from v obtain mac where hex: "hex_DecodeString gwMAC = (mac, None)"
    using hex_DecodeString_error_iff [of gwMAC] by (cases "hex_DecodeString gwMAC") auto
  from f obtain obj where m: "marshal_pfpacket (json e) packet = Inr obj"
    by (simp add: marshal_pfpacket_def)
  show ?thesis
    by (simp add: sendWithPayload_def b json_Marshal_single m hex Let_def)
qed

lemma sendWithPayload_send_fails:
  assumes b: "build_rxpk (time_Now_RFC3339 e) payload rxInfo txInfo = Returns packet"
    and f: "float64_finite (LSNR packet)" and v: "valid_hex gwMAC"
    and ip: "net_ParseIP e (Server client) = None"
  shows "sendWithPayload e client payload gwMAC rxInfo txInfo w = (Returns None, w)"
proof -
  from v obtain mac where hex: "hex_DecodeString gwMAC = (mac, None)"
    using hex_DecodeString_error_iff [of gwMAC] by (cases "hex_DecodeString gwMAC") auto
  from f obtain obj where m: "marshal_pfpacket (json e) packet = Inr obj"
    by (simp add: marshal_pfpacket_def)
  show ?thesis
    by (simp add: sendWithPayload_def b json_Marshal_single m hex send_bad_server [OF ip] Let_def)
qed

text \<open>
  C3 (the code departs from the claim). The claim: when the UDP send fails,
  \<open>sendWithPayload\<close> returns that failure to its caller. With the server configured as
  \<open>localhost\<close>, which \<open>net.ParseIP\<close> does not accept, \<open>send\<close> fails with
  \<open>bad network server IP\<close> on every datagram, and \<open>sendWithPayload\<close> returns nil: it
  calls \<open>client.send(datagram)\<close> as a statement, drops the result and ends with
  \<open>return nil\<close>, while the errors of \<open>json.Marshal\<close> and \<open>hex.DecodeString\<close> just
  above are returned.
\<close>

theorem sendWithPayload_unparseable_server:
  "(\<forall>bytes. send example_env (example_client\<lparr>Server := ''localhost''\<rparr>) bytes quiet_world
       = (Some (ErrorString ''bad network server IP''), quiet_world)) \<and>
   sendWithPayload example_env (example_client\<lparr>Server := ''localhost''\<rparr>) example_payload
       ''0011223344556677'' (Some example_rxInfo) (Some example_txInfo) quiet_world
     = (Returns None, quiet_world)"
proof -
  have ip: "net_ParseIP example_env (Server (example_client\<lparr>Server := ''localhost''\<rparr>)) = None"
    by (simp add: net_ParseIP_localhost)
  have b: "build_rxpk (time_Now_RFC3339 example_env) example_payload (Some example_rxInfo)
      (Some example_txInfo)
     = Returns \<lparr>Time = ''2020-02-17T12:00:00Z'', TMMS = 1, TMST = 0, Chan = 2, RFCH = 1,
         Freq = Float32_quotient 0 1000000, Stat = 1, Modu = ''LORA'', DatR = ''SF7BW125'',
         CorR = ''4/5'', RSSI = - 57, LSNR = 0, Size = 5, Data = ''3q2+7wE=''\<rparr>"
    using build_rxpk_example by (simp add: example_env_def)
  have v: "valid_hex ''0011223344556677''"
    by (simp add: valid_hex_def is_hex_digit_def)
  show ?thesis
    using send_bad_server [OF ip] sendWithPayload_send_fails [OF b _ v ip]
    by (simp add: float64_finite_def)
qed

subsection \<open>The datagram on the wire\<close>

text \<open>When every step succeeds, exactly one datagram is handed to the network.\<close>

lemma sendWithPayload_sends:
  assumes b: "build_rxpk (time_Now_RFC3339 e) payload rxInfo txInfo = Returns packet"
    and m: "marshal_pfpacket (json e) packet = Inr obj"
    and hex: "hex_DecodeString gwMAC = (mac, None)"
    and ip: "net_ParseIP e (Server client) = Some ip"
    and d: "DialUDP_error e ip (Port client) = None"
    and wr: "\<forall>bytes. Write_error e ip (Port client) bytes = None"
  shows "sendWithPayload e client payload gwMAC rxInfo txInfo w =
     (Returns None,
      w\<lparr>network := network w @ [(ip, Port client,
         [0x02, word_of_int (drop_bit 8 (rand_Int e AND 0xFF00)), word_of_int (rand_Int e AND 0xFF), 0x00]
         @ mac
         @ bytes_of ([CHR ''{'', CHR 0x22] @ ''rxpk'' @ [CHR 0x22, CHR '':'', CHR ''['']
                      @ obj @ '']}''))]\<rparr>)"
  using wr by (simp add: sendWithPayload_def b json_Marshal_single m hex send_def ip d Let_def)

lemma token_bytes_example:
  "(word_of_int (drop_bit 8 (rand_Int example_env AND 0xFF00)) :: byte) = 0xAB"
  "(word_of_int (rand_Int example_env AND 0xFF) :: byte) = 0xCD"
  by (simp_all add: example_env_def)

lemma net_ParseIP_example:
  "net_ParseIP example_env (Server example_client)
     = Some [0, 0, 0, 0, 0, 0, 0, 0, 0, 0, 0xFF, 0xFF, 127, 0, 0, 1]"
  by (simp add: net_ParseIP_def example_env_def example_client_def)

text \<open>
  The parts of a datagram that went out, and the text that \<open>json.Marshal\<close> writes for one
  rxpk record.
\<close>

lemma sendWithPayload_datagram_parts:
  assumes "network (snd (sendWithPayload e client payload gwMAC rxInfo txInfo w)) \<noteq> network w"
  shows "\<exists>packet obj mac ip.
           build_rxpk (time_Now_RFC3339 e) payload rxInfo txInfo = Returns packet \<and>
           marshal_pfpacket (json e) packet = Inr obj \<and>
           hex_DecodeString gwMAC = (mac, None) \<and> 2 * length mac = length gwMAC \<and>
           net_ParseIP e (Server client) = Some ip \<and>
           network (snd (sendWithPayload e client payload gwMAC rxInfo txInfo w)) =
             network w @ [(ip, Port client,
               [0x02, word_of_int (drop_bit 8 (rand_Int e AND 0xFF00)),
                word_of_int (rand_Int e AND 0xFF), 0x00]
               @ mac
               @ bytes_of ([CHR ''{'', CHR 0x22] @ ''rxpk'' @ [CHR 0x22, CHR '':'', CHR ''['']
                            @ obj @ '']}''))]"
proof (cases "build_rxpk (time_Now_RFC3339 e) payload rxInfo txInfo")
  case (Panic m)
  with assms show ?thesis by (simp add: sendWithPayload_def)
next
  case (Returns packet)
  note b = this
  show ?thesis
  proof (cases "marshal_pfpacket (json e) packet")
    case (Inl err)
    with assms b show ?thesis by (simp add: sendWithPayload_def json_Marshal_single)
  next
    case (Inr obj)
    note m = this
    obtain mac herr where hex: "hex_DecodeString gwMAC = (mac, herr)"
      by (cases "hex_DecodeString gwMAC")
    show ?thesis
    proof (cases herr)
      case (Some er)
      with assms b m hex show ?thesis
        by (simp add: sendWithPayload_def json_Marshal_single Let_def)
    next
      case None
      with hex have len: "2 * length mac = length gwMAC"
        using hex_DecodeString_length [of gwMAC] by simp
      from assms b m hex None
      have sent: "network (snd (send e client
            ([0x02, word_of_int (drop_bit 8 (rand_Int e AND 0xFF00)),
              word_of_int (rand_Int e AND 0xFF), 0x00] @ mac
             @ bytes_of ([CHR ''{'', CHR 0x22] @ ''rxpk'' @ [CHR 0x22, CHR '':'', CHR ''['']
                          @ obj @ '']}'')) w)) \<noteq> network w"
        and eq: "snd (sendWithPayload e client payload gwMAC rxInfo txInfo w) =
          snd (send e client
            ([0x02, word_of_int (drop_bit 8 (rand_Int e AND 0xFF00)),
              word_of_int (rand_Int e AND 0xFF), 0x00] @ mac
             @ bytes_of ([CHR ''{'', CHR 0x22] @ ''rxpk'' @ [CHR 0x22, CHR '':'', CHR ''['']
                          @ obj @ '']}'')) w)"
        by (simp_all add: sendWithPayload_def json_Marshal_single Let_def)
      from sent obtain ip where ip: "net_ParseIP e (Server client) = Some ip"
        by (cases "net_ParseIP e (Server client)") (simp_all add: send_def)
      from sent ip have "network (snd (send e client
            ([0x02, word_of_int (drop_bit 8 (rand_Int e AND 0xFF00)),
              word_of_int (rand_Int e AND 0xFF), 0x00] @ mac
             @ bytes_of ([CHR ''{'', CHR 0x22] @ ''rxpk'' @ [CHR 0x22, CHR '':'', CHR ''['']
                          @ obj @ '']}'')) w)) =
          network w @ [(ip, Port client,
            [0x02, word_of_int (drop_bit 8 (rand_Int e AND 0xFF00)),
              word_of_int (rand_Int e AND 0xFF), 0x00] @ mac
             @ bytes_of ([CHR ''{'', CHR 0x22] @ ''rxpk'' @ [CHR 0x22, CHR '':'', CHR ''['']
                          @ obj @ '']}''))]"
        by (simp add: send_def split: option.splits)
      with b m hex None len ip eq show ?thesis by simp
    qed
  qed
qed


lemma marshal_pfpacket_text:
  \<open>marshal_pfpacket jt p = Inr obj \<Longrightarrow>
   float64_finite (LSNR p) \<and>
   obj = ''{"time":'' @ quote jt (Time p)
       @ '',"tmms":'' @ fmt_uint (unat (TMMS p))
       @ '',"tmst":'' @ fmt_uint (unat (TMST p))
       @ '',"chan":'' @ fmt_uint (unat (Chan p))
       @ '',"rfch":'' @ fmt_uint (unat (RFCH p))
       @ '',"freq":'' @ float32_text jt (Freq p)
       @ '',"stat":'' @ fmt_int (sint (Stat p))
       @ '',"modu":'' @ quote jt (Modu p)
       @ '',"datr":'' @ quote jt (DatR p)
       @ '',"codr":'' @ quote jt (CorR p)
       @ '',"rssi":'' @ fmt_int (sint (RSSI p))
       @ '',"lsnr":'' @ float64_text jt (LSNR p)
       @ '',"size":'' @ fmt_uint (unat (Size p))
       @ '',"data":'' @ quote jt (Data p) @ ''}''\<close>
  by (auto simp: marshal_pfpacket_def split: if_splits)

text \<open>
  C7. Whatever the payload and the metadata, when \<open>sendWithPayload\<close> puts something on
  the network it is one datagram, made of the four header bytes (\<open>0x02\<close>, the two token
  bytes, \<open>0x00\<close>), the bytes decoded from the gateway MAC (half as many as it has
  characters, so 8 for 16 hex characters), and the bytes of the JSON body. The body is
  the object with the single key \<open>rxpk\<close> whose array holds one record, the rxpk record
  built from the payload and the metadata, with its fourteen fields in order.
\<close>

theorem sendWithPayload_datagram_layout:
  assumes \<open>network (snd (sendWithPayload e client payload gwMAC rxInfo txInfo w)) \<noteq> network w\<close>
  shows \<open>\<exists>p mac ip.
           build_rxpk (time_Now_RFC3339 e) payload rxInfo txInfo = Returns p \<and>
           hex_DecodeString gwMAC = (mac, None) \<and> 2 * length mac = length gwMAC \<and>
           net_ParseIP e (Server client) = Some ip \<and>
           network (snd (sendWithPayload e client payload gwMAC rxInfo txInfo w)) =
             network w @ [(ip, Port client,
               [0x02, word_of_int (drop_bit 8 (rand_Int e AND 0xFF00)),
                word_of_int (rand_Int e AND 0xFF), 0x00]
               @ mac
               @ map of_char
                  (''{"rxpk":[''
                   @ ''{"time":'' @ quote (json e) (Time p)
                   @ '',"tmms":'' @ fmt_uint (unat (TMMS p))
                   @ '',"tmst":'' @ fmt_uint (unat (TMST p))
                   @ '',"chan":'' @ fmt_uint (unat (Chan p))
                   @ '',"rfch":'' @ fmt_uint (unat (RFCH p))
                   @ '',"freq":'' @ float32_text (json e) (Freq p)
                   @ '',"stat":'' @ fmt_int (sint (Stat p))
                   @ '',"modu":'' @ quote (json e) (Modu p)
                   @ '',"datr":'' @ quote (json e) (DatR p)
                   @ '',"codr":'' @ quote (json e) (CorR p)
                   @ '',"rssi":'' @ fmt_int (sint (RSSI p))
                   @ '',"lsnr":'' @ float64_text (json e) (LSNR p)
                   @ '',"size":'' @ fmt_uint (unat (Size p))
                   @ '',"data":'' @ quote (json e) (Data p) @ ''}''
                   @ '']}''))]\<close>
proof -
  from sendWithPayload_datagram_parts [OF assms]
  obtain p obj mac ip where
    1: "build_rxpk (time_Now_RFC3339 e) payload rxInfo txInfo = Returns p"
    and 2: "marshal_pfpacket (json e) p = Inr obj"
    and 3: "hex_DecodeString gwMAC = (mac, None)" "2 * length mac = length gwMAC"
    and 4: "net_ParseIP e (Server client) = Some ip"
    and 5: "network (snd (sendWithPayload e client payload gwMAC rxInfo txInfo w)) =
             network w @ [(ip, Port client,
               [0x02, word_of_int (drop_bit 8 (rand_Int e AND 0xFF00)),
                word_of_int (rand_Int e AND 0xFF), 0x00]
               @ mac
               @ bytes_of ([CHR ''{'', CHR 0x22] @ ''rxpk'' @ [CHR 0x22, CHR '':'', CHR ''['']
                            @ obj @ '']}''))]"
    by blast
  from marshal_pfpacket_text [OF 2] 5 have
    \<open>network (snd (sendWithPayload e client payload gwMAC rxInfo txInfo w)) =
             network w @ [(ip, Port client,
               [0x02, word_of_int (drop_bit 8 (rand_Int e AND 0xFF00)),
                word_of_int (rand_Int e AND 0xFF), 0x00]
               @ mac
               @ map of_char
                  (''{"rxpk":[''
                   @ ''{"time":'' @ quote (json e) (Time p)
                   @ '',"tmms":'' @ fmt_uint (unat (TMMS p))
                   @ '',"tmst":'' @ fmt_uint (unat (TMST p))
                   @ '',"chan":'' @ fmt_uint (unat (Chan p))
                   @ '',"rfch":'' @ fmt_uint (unat (RFCH p))
                   @ '',"freq":'' @ float32_text (json e) (Freq p)
                   @ '',"stat":'' @ fmt_int (sint (Stat p))
                   @ '',"modu":'' @ quote (json e) (Modu p)
                   @ '',"datr":'' @ quote (json e) (DatR p)
                   @ '',"codr":'' @ quote (json e) (CorR p)
                   @ '',"rssi":'' @ fmt_int (sint (RSSI p))
                   @ '',"lsnr":'' @ float64_text (json e) (LSNR p)
                   @ '',"size":'' @ fmt_uint (unat (Size p))
                   @ '',"data":'' @ quote (json e) (Data p) @ ''}''
                   @ '']}''))]\<close>
    by (simp add: bytes_of_def)
  with 1 3 4 show ?thesis by blast
qed


theorem sendWithPayload_datagram_layout_witness:
  \<open>network (snd (sendWithPayload example_env example_client example_payload ''0011223344556677''
       (Some example_rxInfo) (Some example_txInfo) quiet_world)) \<noteq> network quiet_world \<and>
   network (snd (sendWithPayload example_env example_client example_payload ''0011223344556677''
       (Some example_rxInfo) (Some example_txInfo) quiet_world)) =
     [([0, 0, 0, 0, 0, 0, 0, 0, 0, 0, 0xFF, 0xFF, 127, 0, 0, 1], 1700,
       [0x02, 0xAB, 0xCD, 0x00, 0x00, 0x11, 0x22, 0x33, 0x44, 0x55, 0x66, 0x77]
       @ map of_char (''{"rxpk":[{"time":"2020-02-17T12:00:00Z","tmms":1,"tmst":0,"chan":2,''
                      @ ''"rfch":1,"freq":0,"stat":1,"modu":"LORA","datr":"SF7BW125",''
                      @ ''"codr":"4/5","rssi":-57,"lsnr":0,"size":5,"data":"3q2+7wE="}]}''))]\<close>
proof -
  let ?w = "sendWithPayload example_env example_client example_payload ''0011223344556677''
       (Some example_rxInfo) (Some example_txInfo) quiet_world"
  let ?p = "\<lparr>Time = ''2020-02-17T12:00:00Z'', TMMS = 1, TMST = 0, Chan = 2, RFCH = 1,
         Freq = Float32_quotient 0 1000000, Stat = 1, Modu = ''LORA'', DatR = ''SF7BW125'',
         CorR = ''4/5'', RSSI = - 57, LSNR = 0, Size = 5, Data = ''3q2+7wE=''\<rparr>"
  have b: "build_rxpk (time_Now_RFC3339 example_env) example_payload (Some example_rxInfo)
      (Some example_txInfo) = Returns ?p"
    using build_rxpk_example by (simp add: example_env_def)
  obtain obj0 where m: "marshal_pfpacket (json example_env) ?p = Inr obj0"
    by (simp add: marshal_pfpacket_def float64_finite_def)
  have d: "DialUDP_error example_env [0, 0, 0, 0, 0, 0, 0, 0, 0, 0, 0xFF, 0xFF, 127, 0, 0, 1]
      (Port example_client) = None"
    and wr: "\<forall>bytes. Write_error example_env [0, 0, 0, 0, 0, 0, 0, 0, 0, 0, 0xFF, 0xFF, 127, 0, 0, 1]
      (Port example_client) bytes = None"
    by (simp_all add: example_env_def)
  have h: "network (snd ?w) \<noteq> network quiet_world"
    by (simp add: sendWithPayload_sends [OF b m hex_DecodeString_example net_ParseIP_example d wr])
  from sendWithPayload_datagram_layout [OF h]
  obtain p mac ip where
    1: "build_rxpk (time_Now_RFC3339 example_env) example_payload (Some example_rxInfo)
          (Some example_txInfo) = Returns p"
    and 3: "hex_DecodeString ''0011223344556677'' = (mac, None)"
    and 4: "net_ParseIP example_env (Server example_client) = Some ip"
    and 5: \<open>network (snd ?w) = network quiet_world @ [(ip, Port example_client,
               [0x02, word_of_int (drop_bit 8 (rand_Int example_env AND 0xFF00)),
                word_of_int (rand_Int example_env AND 0xFF), 0x00]
               @ mac
               @ map of_char
                  (''{"rxpk":[''
                   @ ''{"time":'' @ quote (json example_env) (Time p)
                   @ '',"tmms":'' @ fmt_uint (unat (TMMS p))
                   @ '',"tmst":'' @ fmt_uint (unat (TMST p))
                   @ '',"chan":'' @ fmt_uint (unat (Chan p))
                   @ '',"rfch":'' @ fmt_uint (unat (RFCH p))
                   @ '',"freq":'' @ float32_text (json example_env) (Freq p)
                   @ '',"stat":'' @ fmt_int (sint (Stat p))
                   @ '',"modu":'' @ quote (json example_env) (Modu p)
                   @ '',"datr":'' @ quote (json example_env) (DatR p)
                   @ '',"codr":'' @ quote (json example_env) (CorR p)
                   @ '',"rssi":'' @ fmt_int (sint (RSSI p))
                   @ '',"lsnr":'' @ float64_text (json example_env) (LSNR p)
                   @ '',"size":'' @ fmt_uint (unat (Size p))
                   @ '',"data":'' @ quote (json example_env) (Data p) @ ''}''
                   @ '']}''))]\<close>
    by blast
  from 1 b have p: "p = ?p" by simp
  from 3 have mac: "mac = [0x00, 0x11, 0x22, 0x33, 0x44, 0x55, 0x66, 0x77]"
    by (simp only: hex_DecodeString_example prod.inject)
  from 4 have ip: "ip = [0, 0, 0, 0, 0, 0, 0, 0, 0, 0, 0xFF, 0xFF, 127, 0, 0, 1]"
    by (simp only: net_ParseIP_example option.inject)
  have num: "fmt_uint 0 = ''0''" "fmt_uint 1 = ''1''" "fmt_uint 2 = ''2''" "fmt_uint 5 = ''5''"
    "fmt_uint (Suc 0) = ''1''" "fmt_int 1 = ''1''" "fmt_int (- 57) = ''-57''"
    by (simp_all add: fmt_int_def fmt_uint.simps digit_def char_of_def bit_iff_odd)
  have js: "quote (json example_env) = (\<lambda>s. [CHR 0x22] @ s @ [CHR 0x22])"
    "float32_text (json example_env) = (\<lambda>x. ''0'')"
    "float64_text (json example_env) = (\<lambda>x. ''0'')"
    by (simp_all add: example_env_def)
  have 7: \<open>network (snd ?w) =
     [([0, 0, 0, 0, 0, 0, 0, 0, 0, 0, 0xFF, 0xFF, 127, 0, 0, 1], 1700,
       [0x02, 0xAB, 0xCD, 0x00, 0x00, 0x11, 0x22, 0x33, 0x44, 0x55, 0x66, 0x77]
       @ map of_char (''{"rxpk":[{"time":"2020-02-17T12:00:00Z","tmms":1,"tmst":0,"chan":2,''
                      @ ''"rfch":1,"freq":0,"stat":1,"modu":"LORA","datr":"SF7BW125",''
                      @ ''"codr":"4/5","rssi":-57,"lsnr":0,"size":5,"data":"3q2+7wE="}]}''))]\<close>
    unfolding 5 p mac ip token_bytes_example js
    by (simp add: num quiet_world_def example_client_def)
  from h 7 show ?thesis by blast
qed

end
